theory Spec2Isabelle
  imports Main
begin

section \<open>Python strings\<close>

text \<open>
  The two source files, \<^verbatim>\<open>db_converter.py\<close> and \<^verbatim>\<open>converter.py\<close>, hold the same
  \<^verbatim>\<open>excel_to_database\<close> and \<^verbatim>\<open>get_table_preview\<close>, character for character;
  \<^verbatim>\<open>converter.py\<close> adds \<^verbatim>\<open>pdf_to_excel\<close>. One model serves both.

  A Python \<^verbatim>\<open>str\<close> is a sequence of code points. Here a \<^typ>\<open>char\<close> stands for the
  code point of the same number, so a \<^typ>\<open>string\<close> is a Python string whose code points
  are all below 256 (ASCII and Latin-1). On these code points \<^verbatim>\<open>str.lower\<close>,
  \<^verbatim>\<open>str.isalnum\<close> and \<^verbatim>\<open>str.isspace\<close> work character by character, with the
  tables of CPython written out below.
\<close>

abbreviation ord :: "char \<Rightarrow> nat" where
  "ord c \<equiv> of_char c"

definition py_lower_char :: "char \<Rightarrow> char" where
  "py_lower_char c =
     (if (65 \<le> ord c \<and> ord c \<le> 90) \<or> (192 \<le> ord c \<and> ord c \<le> 214) \<or> (216 \<le> ord c \<and> ord c \<le> 222)
      then char_of (ord c + 32) else c)"







text \<open>\<^verbatim>\<open>str(n)\<close> of an integer: decimal digits, a minus sign when negative.\<close>

definition digit_char :: "nat \<Rightarrow> char" where
  "digit_char d = char_of (48 + d)"

function str_nat :: "nat \<Rightarrow> string" where
  "str_nat n = (if n < 10 then [digit_char n] else str_nat (n div 10) @ [digit_char (n mod 10)])"
  by pat_completeness auto
termination
  by (relation "measure id") auto

declare str_nat.simps [simp del]

definition str_int :: "int \<Rightarrow> string" where
  "str_int i = (if i < 0 then CHR ''-'' # str_nat (nat (- i)) else str_nat (nat i))"

section \<open>Identifier sanitization\<close>




section \<open>Record Sets, workbooks and errors\<close>

text \<open>
  A pandas DataFrame as this code uses it: the column labels in their order, which may repeat,
  and the rows, each a list of cells, one per column. A label is a \<^verbatim>\<open>str\<close> or, when the
  header cell of the sheet held a number, a number. \<^verbatim>\<open>len(df)\<close> is the number of rows.
\<close>

datatype label = Str string | Num int

datatype cell = Text string | Number int | Boolean bool | Null

record dataframe =
  df_columns :: "label list"
  df_rows :: "cell list list"



datatype sqlite_error =
    SyntaxError
  | NoSuchTable string
  | TableExists string
  | ReservedName string
  | DuplicateColumn string
  | DatatypeMismatch

text \<open>
  The exceptions that can leave the three functions: \<open>AttributeError\<close> from
  \<^verbatim>\<open>col.lower()\<close> on a label that is not a string; \<open>WorksheetNotFound\<close>, the
  \<^verbatim>\<open>ValueError\<close> of \<^verbatim>\<open>pd.read_excel\<close> for a sheet the file does not have;
  \<open>EmptyName\<close> and \<open>NulInName\<close>, the \<^verbatim>\<open>ValueError\<close>s with which pandas refuses a
  table or column name before it writes; \<open>OperationalError\<close>, raised by the engine under
  \<^verbatim>\<open>to_sql\<close>; \<open>DatabaseError\<close>, in which \<^verbatim>\<open>pd.read_sql\<close> wraps a failure of the
  engine; \<open>NoVisibleSheet\<close>, the failure of saving a workbook into which no sheet was
  written, which \<^verbatim>\<open>pdf_to_excel\<close> re-raises as a plain \<^verbatim>\<open>Exception\<close>.
\<close>

datatype error =
    AttributeError
  | WorksheetNotFound string
  | EmptyName
  | NulInName
  | OperationalError sqlite_error
  | DatabaseError sqlite_error
  | NoVisibleSheet

section \<open>The relational store\<close>

text \<open>
  The SQLite file behind \<^verbatim>\<open>database_name\<close> is the finite map of its tables. The engine
  compares table and column names without regard to the case of ASCII letters, so a table is
  filed under its folded name and keeps the name it was created with. Column types, views,
  indexes and attached databases are not modelled; a cell is stored as it is given.
\<close>

record table =
  tbl_name :: string
  tbl_columns :: "string list"
  tbl_rows :: "cell list list"

type_synonym database = "string \<rightharpoonup> table"

definition sqlite_fold_char :: "char \<Rightarrow> char" where
  "sqlite_fold_char c = (if 65 \<le> ord c \<and> ord c \<le> 90 then char_of (ord c + 32) else c)"

definition sqlite_fold :: "string \<Rightarrow> string" where
  "sqlite_fold s = map sqlite_fold_char s"

subsection \<open>Writing: \<^verbatim>\<open>df.to_sql(name, conn, if_exists='replace', index=False)\<close>\<close>

definition label_str :: "label \<Rightarrow> string" where
  "label_str l = (case l of Str s \<Rightarrow> s | Num n \<Rightarrow> str_int n)"








subsection \<open>Reading: the query text that \<^verbatim>\<open>get_table_preview\<close> sends\<close>

text \<open>
  The engine receives a text and parses it. The model covers the texts of six or five words
  \<^verbatim>\<open>SELECT * FROM x LIMIT n\<close>, where the word \<open>x\<close> (absent in the five-word text) is
  made of identifier characters only, or is one double-quoted name without an inner quote,
  and \<open>n\<close> is a decimal integer with an optional sign. For every other text the model gives
  \<open>None\<close>: nothing is claimed about it.
\<close>

function sql_words :: "string \<Rightarrow> string list" where
  "sql_words [] = []"
| "sql_words (c # cs) =
     (if c = CHR '' '' then sql_words cs
      else (c # takeWhile (\<lambda>x. x \<noteq> CHR '' '') cs) # sql_words (dropWhile (\<lambda>x. x \<noteq> CHR '' '') cs))"
  by pat_completeness auto
termination
  by (relation "measure length") (auto simp: le_imp_less_Suc length_dropWhile_le)

fun select_shape :: "string list \<Rightarrow> (string option \<times> string) option" where
  "select_shape [s, a, f, l, n] =
     (if s = ''SELECT'' \<and> a = ''*'' \<and> f = ''FROM'' \<and> l = ''LIMIT'' then Some (None, n) else None)"
| "select_shape [s, a, f, x, l, n] =
     (if s = ''SELECT'' \<and> a = ''*'' \<and> f = ''FROM'' \<and> l = ''LIMIT'' then Some (Some x, n) else None)"
| "select_shape ws = None"

definition is_digit :: "char \<Rightarrow> bool" where
  "is_digit c = (48 \<le> ord c \<and> ord c \<le> 57)"

definition sqlite_idchar :: "char \<Rightarrow> bool" where
  "sqlite_idchar c =
     (is_digit c \<or> (65 \<le> ord c \<and> ord c \<le> 90) \<or> (97 \<le> ord c \<and> ord c \<le> 122)
      \<or> c = CHR ''_'' \<or> 128 \<le> ord c)"

text \<open>
  The keywords that SQLite 3.46 refuses as a bare table name after \<^verbatim>\<open>FROM\<close> (its other
  keywords fall back to identifiers there).
\<close>

definition reserved_words :: "string list" where
  "reserved_words =
     [''add'', ''all'', ''alter'', ''and'', ''as'', ''autoincrement'', ''between'', ''case'',
      ''check'', ''collate'', ''commit'', ''constraint'', ''create'', ''default'',
      ''deferrable'', ''delete'', ''distinct'', ''drop'', ''else'', ''escape'', ''except'',
      ''exists'', ''foreign'', ''from'', ''group'', ''having'', ''in'', ''index'', ''insert'',
      ''intersect'', ''into'', ''is'', ''isnull'', ''join'', ''limit'', ''not'', ''nothing'',
      ''notnull'', ''null'', ''on'', ''or'', ''order'', ''primary'', ''references'',
      ''returning'', ''select'', ''set'', ''table'', ''then'', ''to'', ''transaction'',
      ''union'', ''unique'', ''update'', ''using'', ''values'', ''when'', ''where'']"

text \<open>
  Names that the engine resolves by itself (the schema tables, the table-valued pragma
  functions, \<^verbatim>\<open>json_each\<close> and \<^verbatim>\<open>json_tree\<close>) are outside the model.
\<close>

definition engine_name :: "string \<Rightarrow> bool" where
  "engine_name n =
     (take 7 n = ''sqlite_'' \<or> take 7 n = ''pragma_'' \<or> n = ''json_each'' \<or> n = ''json_tree'')"

text \<open>
  The word after \<^verbatim>\<open>FROM\<close>: a number or a word that starts with a digit is no table name
  (syntax error or unrecognized token), a reserved word is a syntax error, any other bare
  word names a table, and a quoted word names the table between the quotes.
\<close>

definition from_word :: "string \<Rightarrow> (sqlite_error + string) option" where
  "from_word x =
     (if x \<noteq> [] \<and> list_all sqlite_idchar x then
        (if is_digit (hd x) then Some (Inl SyntaxError)
         else if sqlite_fold x \<in> set reserved_words then Some (Inl SyntaxError)
         else Some (Inr x))
      else if 2 \<le> length x \<and> hd x = CHR 0x22 \<and> last x = CHR 0x22
              \<and> CHR 0x22 \<notin> set (butlast (tl x)) \<and> CHR 0x00 \<notin> set x
      then Some (Inr (butlast (tl x)))
      else None)"

definition digits_value :: "string \<Rightarrow> nat" where
  "digits_value ds = foldl (\<lambda>a c. 10 * a + (ord c - 48)) 0 ds"

definition limit_word :: "string \<Rightarrow> int option" where
  "limit_word n =
     (if n \<noteq> [] \<and> list_all is_digit n then Some (int (digits_value n))
      else if 2 \<le> length n \<and> hd n = CHR ''-'' \<and> list_all is_digit (tl n)
      then Some (- int (digits_value (tl n)))
      else None)"

text \<open>
  A limit outside the 64-bit integers is a datatype mismatch when the query runs; a negative
  limit means no limit.
\<close>

definition limit_rows :: "int \<Rightarrow> 'a list \<Rightarrow> sqlite_error + 'a list" where
  "limit_rows i rs =
     (if i < - (2 ^ 63) \<or> 2 ^ 63 \<le> i then Inl DatatypeMismatch
      else if i < 0 then Inr rs
      else Inr (take (nat i) rs))"

definition sqlite_select :: "database \<Rightarrow> string \<Rightarrow> (sqlite_error + dataframe) option" where
  "sqlite_select db query =
     (case select_shape (sql_words query) of
        None \<Rightarrow> None
      | Some (xo, n) \<Rightarrow>
          (case limit_word n of
             None \<Rightarrow> None
           | Some i \<Rightarrow>
               (case xo of
                  None \<Rightarrow> Some (Inl SyntaxError)
                | Some x \<Rightarrow>
                    (case from_word x of
                       None \<Rightarrow> None
                     | Some (Inl e) \<Rightarrow> Some (Inl e)
                     | Some (Inr name) \<Rightarrow>
                         if engine_name (sqlite_fold name) then None
                         else (case db (sqlite_fold name) of
                                 None \<Rightarrow> Some (Inl (NoSuchTable name))
                               | Some t \<Rightarrow>
                                   (case limit_rows i (tbl_rows t) of
                                      Inl e \<Rightarrow> Some (Inl e)
                                    | Inr rs \<Rightarrow>
                                        Some (Inr \<lparr>df_columns = map Str (tbl_columns t),
                                                   df_rows = rs\<rparr>)))))))"

section \<open>The functions of the repository\<close>

subsection \<open>\<^verbatim>\<open>get_excel_sheets\<close>\<close>


subsection \<open>\<^verbatim>\<open>excel_to_database\<close>\<close>










subsection \<open>\<^verbatim>\<open>get_table_preview\<close>\<close>

text \<open>The f-string \<^verbatim>\<open>f"SELECT * FROM {table_name} LIMIT {rows}"\<close>.\<close>

definition preview_query :: "string \<Rightarrow> int \<Rightarrow> string" where
  "preview_query tn n = ''SELECT * FROM '' @ tn @ '' LIMIT '' @ str_int n"

text \<open>
  \<open>None\<close> when the query text is outside the modelled fragment of SQL, else the DataFrame
  returned or the exception raised.
\<close>

definition get_table_preview :: "database \<Rightarrow> string \<Rightarrow> int \<Rightarrow> (error + dataframe) option" where
  "get_table_preview db tn n =
     (case sqlite_select db (preview_query tn n) of
        None \<Rightarrow> None
      | Some (Inl e) \<Rightarrow> Some (Inl (DatabaseError e))
      | Some (Inr df) \<Rightarrow> Some (Inr df))"

subsection \<open>\<^verbatim>\<open>pdf_to_excel\<close>\<close>

text \<open>
  The PDF is modelled by what the two readers yield for it: \<open>tables\<close>, the list that
  \<^verbatim>\<open>tabula.read_pdf\<close> returns, and \<open>pages\<close>, the text that \<^verbatim>\<open>extract_text\<close> returns
  for each page, in page order. The result is the workbook written to \<^verbatim>\<open>output_path\<close>.
\<close>





section \<open>Notions used in the statements\<close>










text \<open>
  A \<open>plain_table_name\<close> is a text that the engine reads as the name of a user table when it
  stands bare after \<^verbatim>\<open>FROM\<close>: identifier characters only, no digit in front, no reserved
  word, no name of the engine's own. \<open>quoted\<close> puts a text between double quotes.
\<close>

definition plain_table_name :: "string \<Rightarrow> bool" where
  "plain_table_name tn =
     (tn \<noteq> [] \<and> list_all sqlite_idchar tn \<and> \<not> is_digit (hd tn)
      \<and> sqlite_fold tn \<notin> set reserved_words \<and> \<not> engine_name (sqlite_fold tn))"


text \<open>A store with one table of three rows, and a frame with one column and one row.\<close>

definition items_store :: database where
  "items_store =
     [''items'' \<mapsto> \<lparr>tbl_name = ''items'', tbl_columns = [''id''],
                      tbl_rows = [[Number 1], [Number 2], [Number 3]]\<rparr>]"


section \<open>Properties of the sanitizers\<close>

lemma py_lower_char_neq:
  assumes "ord x < 65"
  shows "py_lower_char c = x \<longleftrightarrow> c = x"
proof
  assume eq: "py_lower_char c = x"
  show "c = x"
  proof (rule ccontr)
    assume ne: "c \<noteq> x"
    with eq have up: "(65 \<le> ord c \<and> ord c \<le> 90) \<or> (192 \<le> ord c \<and> ord c \<le> 214) \<or> (216 \<le> ord c \<and> ord c \<le> 222)"
      and x: "x = char_of (ord c + 32)"
      by (auto simp: py_lower_char_def split: if_splits)
    from x have "ord x = (ord c + 32) mod 256" by simp
    with up assms show False by auto
  qed
next
  assume "c = x"
  with assms show "py_lower_char c = x" by (simp add: py_lower_char_def)
qed

lemma py_lower_char_space [simp]: "py_lower_char c = CHR '' '' \<longleftrightarrow> c = CHR '' ''"
  by (rule py_lower_char_neq) simp

lemma py_lower_char_hyphen [simp]: "py_lower_char c = CHR ''-'' \<longleftrightarrow> c = CHR ''-''"
  by (rule py_lower_char_neq) simp







section \<open>The conversion on the example workbook\<close>







section \<open>The text fallback of \<^verbatim>\<open>pdf_to_excel\<close>\<close>







section \<open>Writing tables: one sheet, a run, a second run\<close>
























section \<open>A failure in the middle of a run\<close>









lemma label_str_Str [simp]: "label_str (Str s) = s"
  by (simp add: label_str_def)

lemma map_label_str_Str [simp]: "map (label_str \<circ> Str) cols = cols"
  by (induction cols) simp_all








section \<open>Which sheets are converted, and in which order\<close>











section \<open>Columns whose cleaned names collide\<close>










section \<open>The preview of a table\<close>

lemma sql_words_word:
  assumes "w \<noteq> []" "CHR '' '' \<notin> set w"
  shows "sql_words (w @ CHR '' '' # rest) = w # sql_words rest"
proof -
  from assms obtain c cs where w: "w = c # cs" by (cases w) auto
  with assms have c: "c \<noteq> CHR '' ''" and cs: "\<And>x. x \<in> set cs \<Longrightarrow> x \<noteq> CHR '' ''" by auto
  have t: "takeWhile (\<lambda>x. x \<noteq> CHR '' '') (cs @ CHR '' '' # rest) = cs"
    using cs by (simp add: takeWhile_append2)
  have d: "dropWhile (\<lambda>x. x \<noteq> CHR '' '') (cs @ CHR '' '' # rest) = CHR '' '' # rest"
    using cs by (simp add: dropWhile_append2)
  show ?thesis using c by (simp add: w t d)
qed

lemma sql_words_last:
  assumes "w \<noteq> []" "CHR '' '' \<notin> set w"
  shows "sql_words w = [w]"
proof -
  from assms obtain c cs where w: "w = c # cs" by (cases w) auto
  with assms have c: "c \<noteq> CHR '' ''" and cs: "\<And>x. x \<in> set cs \<Longrightarrow> x \<noteq> CHR '' ''" by auto
  have t: "takeWhile (\<lambda>x. x \<noteq> CHR '' '') cs = cs"
    using cs by (simp add: takeWhile_eq_all_conv)
  have d: "dropWhile (\<lambda>x. x \<noteq> CHR '' '') cs = []"
    using cs by simp
  show ?thesis using c by (simp add: w t d)
qed

lemma is_digit_digit_char: "d < 10 \<Longrightarrow> is_digit (digit_char d) \<and> ord (digit_char d) = 48 + d"
  by (simp add: is_digit_def digit_char_def)

lemma str_nat_digits: "str_nat n \<noteq> [] \<and> list_all is_digit (str_nat n) \<and> digits_value (str_nat n) = n"
proof (induction n rule: str_nat.induct)
  case (1 n)
  show ?case
  proof (cases "n < 10")
    case True
    then show ?thesis
      by (subst (1 2 3) str_nat.simps) (simp add: is_digit_digit_char digits_value_def)
  next
    case False
    have m: "n mod 10 < 10" by simp
    from 1 [OF False] False m show ?thesis
      by (subst (1 2 3) str_nat.simps) (simp add: is_digit_digit_char digits_value_def)
  qed
qed

lemma limit_word_str_int: "limit_word (str_int n) = Some n"
proof (cases "n < 0")
  case False
  with str_nat_digits [of "nat n"] show ?thesis by (simp add: limit_word_def str_int_def)
next
  case True
  have "\<not> is_digit CHR ''-''" by (simp add: is_digit_def)
  moreover have "2 \<le> length (CHR ''-'' # str_nat (nat (- n)))"
    using str_nat_digits [of "nat (- n)"] by (cases "str_nat (nat (- n))") auto
  ultimately show ?thesis
    using True str_nat_digits [of "nat (- n)"] by (simp add: limit_word_def str_int_def)
qed

lemma is_digit_not_space: "is_digit c \<Longrightarrow> c \<noteq> CHR '' ''"
  by (auto simp: is_digit_def)

lemma str_int_words: "str_int n \<noteq> [] \<and> CHR '' '' \<notin> set (str_int n)"
proof -
  have "CHR '' '' \<notin> set (str_nat m)" for m
    using str_nat_digits [of m] is_digit_not_space by (auto simp: list_all_iff)
  with str_nat_digits show ?thesis by (simp add: str_int_def)
qed

lemma sql_words_preview:
  assumes "tn \<noteq> []" "CHR '' '' \<notin> set tn"
  shows "sql_words (preview_query tn n) = [''SELECT'', ''*'', ''FROM'', tn, ''LIMIT'', str_int n]"
proof -
  have a: "sql_words (preview_query tn n) =
      ''SELECT'' # ''*'' # ''FROM'' # sql_words (tn @ CHR '' '' # (''LIMIT'' @ CHR '' '' # str_int n))"
    by (simp add: preview_query_def)
  have b: "sql_words (tn @ CHR '' '' # (''LIMIT'' @ CHR '' '' # str_int n)) =
      tn # sql_words (''LIMIT'' @ CHR '' '' # str_int n)"
    by (rule sql_words_word [OF assms])
  have c: "sql_words (''LIMIT'' @ CHR '' '' # str_int n) = ''LIMIT'' # sql_words (str_int n)"
    by (rule sql_words_word) simp_all
  have d: "sql_words (str_int n) = [str_int n]"
    using str_int_words [of n] by (intro sql_words_last) simp_all
  show ?thesis by (simp only: a b c d)
qed

lemma idchar_facts:
  "sqlite_idchar c \<Longrightarrow> c \<noteq> CHR '' '' \<and> c \<noteq> CHR 0x22 \<and> c \<noteq> CHR 0x00"
  by (auto simp: sqlite_idchar_def is_digit_def)

lemma idchars_set:
  assumes "list_all sqlite_idchar tn"
  shows "CHR '' '' \<notin> set tn \<and> CHR 0x22 \<notin> set tn \<and> CHR 0x00 \<notin> set tn"
  using assms idchar_facts by (auto simp: list_all_iff)

lemma sqlite_select_bare:
  assumes "tn \<noteq> []" "list_all sqlite_idchar tn"
  shows "sqlite_select db (preview_query tn n) =
     (if is_digit (hd tn) \<or> sqlite_fold tn \<in> set reserved_words then Some (Inl SyntaxError)
      else if engine_name (sqlite_fold tn) then None
      else (case db (sqlite_fold tn) of
              None \<Rightarrow> Some (Inl (NoSuchTable tn))
            | Some t \<Rightarrow>
                (case limit_rows n (tbl_rows t) of
                   Inl e \<Rightarrow> Some (Inl e)
                 | Inr rs \<Rightarrow> Some (Inr \<lparr>df_columns = map Str (tbl_columns t), df_rows = rs\<rparr>))))"
proof -
  from assms idchars_set [OF assms(2)]
  have w: "sql_words (preview_query tn n) = [''SELECT'', ''*'', ''FROM'', tn, ''LIMIT'', str_int n]"
    by (intro sql_words_preview) simp_all
  from assms have f: "from_word tn =
     (if is_digit (hd tn) \<or> sqlite_fold tn \<in> set reserved_words then Some (Inl SyntaxError)
      else Some (Inr tn))"
    by (simp add: from_word_def)
  show ?thesis unfolding sqlite_select_def w by (simp add: limit_word_str_int f)
qed

lemma limit_rows_take: "0 \<le> n \<Longrightarrow> n < 2 ^ 63 \<Longrightarrow> limit_rows n rs = Inr (take (nat n) rs)"
  by (simp add: limit_rows_def)

text \<open>
  C9 (as the code has it). For every store, every plain table name and every limit from 0
  up to the largest 64-bit integer, \<open>get_table_preview\<close> returns the columns and the first
  \<open>limit\<close> rows of the table of that name (compared without regard to case), so at most
  \<open>limit\<close> rows, and it fails with the store's "no such table" error, which pandas raises as
  \<^verbatim>\<open>DatabaseError\<close>, when the store has no table of that name.
\<close>

theorem preview_limit:
  assumes "plain_table_name tn" "0 \<le> n" "n < 2 ^ 63"
  shows "get_table_preview db tn n =
      Some (case db (sqlite_fold tn) of
              None \<Rightarrow> Inl (DatabaseError (NoSuchTable tn))
            | Some t \<Rightarrow> Inr \<lparr>df_columns = map Str (tbl_columns t),
                               df_rows = take (nat n) (tbl_rows t)\<rparr>)
    \<and> (\<forall>df. get_table_preview db tn n = Some (Inr df) \<longrightarrow> int (length (df_rows df)) \<le> n)"
proof -
  from assms(1) have p: "tn \<noteq> []" "list_all sqlite_idchar tn" "\<not> is_digit (hd tn)"
    "sqlite_fold tn \<notin> set reserved_words" "\<not> engine_name (sqlite_fold tn)"
    by (simp_all add: plain_table_name_def)
  have e: "get_table_preview db tn n =
      Some (case db (sqlite_fold tn) of
              None \<Rightarrow> Inl (DatabaseError (NoSuchTable tn))
            | Some t \<Rightarrow> Inr \<lparr>df_columns = map Str (tbl_columns t),
                               df_rows = take (nat n) (tbl_rows t)\<rparr>)"
    unfolding get_table_preview_def sqlite_select_bare [OF p(1,2)]
    using p(3,4,5) by (simp add: limit_rows_take [OF assms(2,3)] split: option.split)
  have "int (length (df_rows df)) \<le> n" if "get_table_preview db tn n = Some (Inr df)" for df
    using that assms(2) unfolding e by (auto split: option.splits)
  with e show ?thesis by blast
qed

theorem preview_limit_witness:
  "plain_table_name ''items''
   \<and> get_table_preview items_store ''items'' 2 =
       Some (Inr \<lparr>df_columns = [Str ''id''], df_rows = [[Number 1], [Number 2]]\<rparr>)
   \<and> get_table_preview items_store ''orders'' 5 =
       Some (Inl (DatabaseError (NoSuchTable ''orders'')))"
proof -
  have p: "plain_table_name ''items''" "plain_table_name ''orders''" by code_simp+
  have f: "sqlite_fold ''items'' = ''items''" "sqlite_fold ''orders'' = ''orders''" by code_simp+
  from preview_limit [OF p(1), of 2 items_store] preview_limit [OF p(2), of 5 items_store] p(1)
  show ?thesis by (simp add: f items_store_def)
qed

text \<open>
  The claim as stated fails for a negative limit, which the engine reads as no limit: the
  preview with limit \<open>-1\<close> returns all three rows of the table.
\<close>

theorem preview_limit_counterexample:
  "get_table_preview items_store ''items'' (- 1) =
     Some (Inr \<lparr>df_columns = [Str ''id''], df_rows = [[Number 1], [Number 2], [Number 3]]\<rparr>)"
  by code_simp

section \<open>Table names that the preview cannot read\<close>
















end
